theory Spec2Isabelle
  imports Complex_Main "HOL-Library.Signed_Division"
begin

section \<open>DayPlanner: the pomodoro timer and the plan extraction client\<close>

text \<open>
  The development embeds the two pieces of \<^verbatim>\<open>src/services/gemini.ts\<close>: the \<^verbatim>\<open>Timer\<close>
  component (a state machine over \<^verbatim>\<open>timeLeft\<close>, \<^verbatim>\<open>timerState\<close> and \<^verbatim>\<open>mode\<close>) and
  \<^verbatim>\<open>parseNaturalLanguagePlan\<close>. JavaScript numbers that the code only uses as whole
  seconds, minutes and counters are \<^typ>\<open>int\<close>; the remainder operator \<^verbatim>\<open>%\<close> truncates
  towards zero and is \<^const>\<open>signed_modulo\<close>.

  React state is modelled by explicit state passing. Every handler reads the component's
  state through \<^verbatim>\<open>stateRef.current\<close>, which the first effect of the component copies from
  the rendered state after each render; the model takes one event at a time, each seeing
  the state the previous one left (the ref is in sync when a handler runs). Several
  \<^verbatim>\<open>setState\<close> calls of one handler are applied in order, the last one winning.
\<close>

subsection \<open>Data model\<close>

text \<open>
  Modelled from the spec: the declarations of \<^verbatim>\<open>Task\<close>, \<^verbatim>\<open>Settings\<close> and \<^verbatim>\<open>TimerState\<close>
  live in \<^verbatim>\<open>../types\<close>, which is not among the sources. The records hold the fields the
  spec lists, all of which the component reads; the field \<^verbatim>\<open>id\<close> is \<open>id_task\<close> here.
\<close>

record Task =
  id_task :: string
  title :: string
  completedPomodoros :: int
  expectedPomodoros :: int

record Settings =
  pomodoroDuration :: int
  shortBreakDuration :: int
  longBreakDuration :: int
  autoStartBreaks :: bool
  autoStartPomodoros :: bool

datatype TimerState = IDLE | RUNNING | PAUSED

text \<open>The string union \<^verbatim>\<open>'pomo' | 'short' | 'long'\<close> of the component.\<close>

datatype Mode = pomo | short | long

text \<open>
  The component: its three state cells and the two props the handlers read. The snapshot
  the spec speaks of is \<open>(timeLeft, timerState, mode)\<close>.
\<close>

record Timer =
  timeLeft :: int
  timerState :: TimerState
  mode :: Mode
  activeTask :: "Task option"
  settings :: Settings

text \<open>What a handler does besides updating the state: the chime and the callbacks.\<close>

datatype Effect = PlayChime | OnPomodoroComplete string | OnTaskComplete string

subsection \<open>The timer\<close>

text \<open>The \<^verbatim>\<open>useState\<close> initialisers: a full focus interval, idle.\<close>

definition initialTimer :: "Task option \<Rightarrow> Settings \<Rightarrow> Timer" where
  "initialTimer task s =
     \<lparr>timeLeft = pomodoroDuration s * 60, timerState = IDLE, mode = pomo,
      activeTask = task, settings = s\<rparr>"

text \<open>
  The reset effect, with dependencies \<^verbatim>\<open>[activeTask?.id, settings.pomodoroDuration]\<close>:
  \<open>setProps\<close> is a render with new props. The effect body runs when one of the two
  dependencies differs from the previous render, and resets only under \<^verbatim>\<open>if (activeTask)\<close>.
\<close>

definition resetTimer :: "Timer \<Rightarrow> Timer" where
  "resetTimer t =
     (case activeTask t of
        Some _ \<Rightarrow> t\<lparr>timerState := IDLE, mode := pomo,
                     timeLeft := pomodoroDuration (settings t) * 60\<rparr>
      | None \<Rightarrow> t)"

definition setProps :: "Task option \<Rightarrow> Settings \<Rightarrow> Timer \<Rightarrow> Timer" where
  "setProps task s t =
     (let t' = t\<lparr>activeTask := task, settings := s\<rparr>
      in if map_option id_task task \<noteq> map_option id_task (activeTask t)
            \<or> pomodoroDuration s \<noteq> pomodoroDuration (settings t)
         then resetTimer t' else t')"

text \<open>
  \<^verbatim>\<open>handleTimerFinish\<close>. \<^verbatim>\<open>(currentTask?.completedPomodoros || 0) + 1\<close>: without a task
  the count is \<open>0\<close>, and a count of \<open>0\<close> is the only falsy integer, replaced by \<open>0\<close>.
\<close>

definition handleTimerFinish :: "Timer \<Rightarrow> Timer \<times> Effect list" where
  "handleTimerFinish t =
     (let currentMode = mode t;
          currentTask = activeTask t;
          currentSettings = settings t;
          t1 = t\<lparr>timerState := IDLE\<rparr>
      in if currentMode = pomo then
           (let called = (case currentTask of
                            Some task \<Rightarrow> [OnPomodoroComplete (id_task task)]
                          | None \<Rightarrow> []);
                completed = (case currentTask of
                               Some task \<Rightarrow> completedPomodoros task
                             | None \<Rightarrow> 0) + 1;
                nextMode = (if completed smod 4 = 0 then long else short);
                t2 = t1\<lparr>mode := nextMode\<rparr>;
                t3 = t2\<lparr>timeLeft :=
                          (if nextMode = long then longBreakDuration currentSettings
                           else shortBreakDuration currentSettings) * 60\<rparr>
            in (if autoStartBreaks currentSettings then t3\<lparr>timerState := RUNNING\<rparr> else t3,
                PlayChime # called))
         else
           (let t2 = t1\<lparr>mode := pomo\<rparr>;
                t3 = t2\<lparr>timeLeft := pomodoroDuration currentSettings * 60\<rparr>
            in (if autoStartPomodoros currentSettings then t3\<lparr>timerState := RUNNING\<rparr> else t3,
                [PlayChime])))"

text \<open>The body of the one-second interval callback.\<close>

definition tick :: "Timer \<Rightarrow> Timer \<times> Effect list" where
  "tick t =
     (if timerState t = RUNNING then
        (if timeLeft t \<le> 1 then handleTimerFinish t
         else (t\<lparr>timeLeft := timeLeft t - 1\<rparr>, []))
      else (t, []))"

definition toggleTimer :: "Timer \<Rightarrow> Timer" where
  "toggleTimer t =
     t\<lparr>timerState := (if timerState t = RUNNING then PAUSED else RUNNING)\<rparr>"

definition skipTimer :: "Timer \<Rightarrow> Timer \<times> Effect list" where
  "skipTimer t = handleTimerFinish t"

text \<open>\<^verbatim>\<open>durationCurrent\<close> of the render, in minutes.\<close>

definition durationCurrent :: "Timer \<Rightarrow> int" where
  "durationCurrent t =
     (if mode t = pomo then pomodoroDuration (settings t)
      else if mode t = short then shortBreakDuration (settings t)
      else longBreakDuration (settings t))"

text \<open>The engine snapshot: what the spec's properties compare.\<close>

definition snapshot :: "Timer \<Rightarrow> Mode \<times> int \<times> TimerState" where
  "snapshot t = (mode t, timeLeft t, timerState t)"

subsection \<open>Events\<close>

text \<open>
  What can happen to a mounted component: the interval fires, one of the two buttons is
  pressed, or the parent renders it with another task or other settings.
\<close>

datatype Event =
  Tick | Toggle | Skip | TaskChanged "Task option" | SettingsChanged Settings

fun step :: "Timer \<Rightarrow> Event \<Rightarrow> Timer" where
  "step t Tick = fst (tick t)"
| "step t Toggle = toggleTimer t"
| "step t Skip = fst (skipTimer t)"
| "step t (TaskChanged task) = setProps task (settings t) t"
| "step t (SettingsChanged s) = setProps (activeTask t) s t"

fun run :: "Timer \<Rightarrow> Event list \<Rightarrow> Timer" where
  "run t [] = t"
| "run t (e # es) = run (step t e) es"

text \<open>The settings the spec allows: every duration a positive number of minutes.\<close>

definition validSettings :: "Settings \<Rightarrow> bool" where
  "validSettings s \<longleftrightarrow>
     0 < pomodoroDuration s \<and> 0 < shortBreakDuration s \<and> 0 < longBreakDuration s"

text \<open>The invariant of the spec: the remaining time is within the current interval.\<close>

definition timeInRange :: "Timer \<Rightarrow> bool" where
  "timeInRange t \<longleftrightarrow> 0 \<le> timeLeft t \<and> timeLeft t \<le> durationCurrent t * 60"

text \<open>
  A change of settings is harmless when it resets the timer (the focus duration changed
  while a task is active) or does not shorten the interval the timer is in.
\<close>

definition resetsOnSettings :: "Timer \<Rightarrow> Settings \<Rightarrow> bool" where
  "resetsOnSettings t s \<longleftrightarrow>
     activeTask t \<noteq> None \<and> pomodoroDuration s \<noteq> pomodoroDuration (settings t)"

fun eventOk :: "Timer \<Rightarrow> Event \<Rightarrow> bool" where
  "eventOk t (SettingsChanged s) =
     (validSettings s \<and>
      (resetsOnSettings t s \<or> durationCurrent t \<le> durationCurrent (t\<lparr>settings := s\<rparr>)))"
| "eventOk t _ = True"

fun admissible :: "Timer \<Rightarrow> Event list \<Rightarrow> bool" where
  "admissible t [] = True"
| "admissible t (e # es) = (eventOk t e \<and> admissible (step t e) es)"

subsection \<open>The plan extraction client\<close>

text \<open>
  The values \<^verbatim>\<open>JSON.parse\<close> can return. Numbers are rationals: only whether a number is
  zero matters to the code. An object is the list of its own properties.
\<close>

datatype json =
  JNull | JBool bool | JNumber rat | JString string
  | JArray "json list" | JObject "(string \<times> json) list"

text \<open>What a \<^verbatim>\<open>throw\<close> carries.\<close>

datatype Exn = SyntaxError string | TypeError string | ApiError string

text \<open>The \<^verbatim>\<open>responseSchema\<close> of the request: properties and the required ones.\<close>

datatype Schema =
  STRING | NUMBER | ARRAY Schema | OBJECT "(string \<times> Schema) list" "string list"

record Request =
  model :: string
  contents :: string
  responseMimeType :: string
  responseSchema :: Schema

text \<open>The function's return type, \<^verbatim>\<open>AIResponse\<close>; at run time \<open>tasks\<close> holds any value.\<close>

record AIResponse =
  tasks :: json

text \<open>What the function does to the outside: console output and the request.\<close>

datatype IO = ConsoleWarn string | ConsoleError Exn | GenerateContentCall Request

text \<open>
  The outside of the function, as parameters: the environment variable, the locale's
  time format, the answer of the service to a request (a thrown error, or a response whose
  \<^verbatim>\<open>text\<close> may be undefined) and \<^verbatim>\<open>JSON.parse\<close> (a thrown error or a value). A request that
  neither resolves nor rejects is outside the model.
\<close>

record Env =
  API_KEY :: "string option"
  toLocaleTimeString :: "int \<Rightarrow> string"
  generateContent :: "Request \<Rightarrow> Exn + string option"
  JSON_parse :: "string \<Rightarrow> Exn + json"

text \<open>
  \<^verbatim>\<open>getClient\<close>: the client is its key; an undefined or empty key is falsy. The library's
  constructor, given a key, is taken to return.
\<close>

definition getClient :: "Env \<Rightarrow> string option \<times> IO list" where
  "getClient env =
     (case API_KEY env of
        None \<Rightarrow> (None, [ConsoleWarn ''API_KEY not found in environment variables''])
      | Some apiKey \<Rightarrow>
          if apiKey = [] then
            (None, [ConsoleWarn ''API_KEY not found in environment variables''])
          else (Some apiKey, []))"

text \<open>JavaScript truthiness of a parsed value.\<close>

fun truthy :: "json \<Rightarrow> bool" where
  "truthy JNull = False"
| "truthy (JBool b) = b"
| "truthy (JNumber n) = (n \<noteq> 0)"
| "truthy (JString s) = (s \<noteq> [])"
| "truthy (JArray _) = True"
| "truthy (JObject _) = True"

text \<open>
  \<^verbatim>\<open>result.tasks\<close>: a \<^verbatim>\<open>TypeError\<close> on \<^verbatim>\<open>null\<close>, the property of an object, and undefined on
  every other value (no prototype has a property of that name).
\<close>

fun getTasks :: "json \<Rightarrow> Exn + json option" where
  "getTasks JNull = Inl (TypeError ''Cannot read properties of null'')"
| "getTasks (JObject props) = Inr (map_of props ''tasks'')"
| "getTasks _ = Inr None"

definition newline :: string where
  "newline = [CHR 0x0A]"

definition dquote :: string where
  "dquote = [CHR 0x22]"

definition squote :: string where
  "squote = [CHR 0x27]"

text \<open>The template literal.\<close>

definition prompt :: "string \<Rightarrow> string \<Rightarrow> string" where
  "prompt nowStr input =
     newline @ ''    I am a day planner. The current time is '' @ nowStr @ ''.''
     @ newline @ ''    The user description is: '' @ dquote @ input @ dquote @ ''.''
     @ newline @ ''    ''
     @ newline @ ''    Return a JSON object with:''
     @ newline @ ''    1. '' @ dquote @ ''tasks'' @ dquote @ '': Array of tasks. Each has ''
       @ squote @ ''title'' @ squote @ '' (string), ''
       @ squote @ ''duration'' @ squote @ '' (number minutes), ''
       @ squote @ ''notes'' @ squote @ '' (string).''
     @ newline @ ''    ''
     @ newline @ ''    Estimate durations if not specified.''
     @ newline @ ''    ''"

definition request :: "string \<Rightarrow> Request" where
  "request p =
     \<lparr>model = ''gemini-2.5-flash'', contents = p,
      responseMimeType = ''application/json'',
      responseSchema =
        OBJECT [(''tasks'',
                 ARRAY (OBJECT [(''title'', STRING), (''duration'', NUMBER), (''notes'', STRING)]
                               [''title'', ''duration'']))] []\<rparr>"

definition noTasks :: AIResponse where
  "noTasks = \<lparr>tasks = JArray []\<rparr>"

text \<open>\<^verbatim>\<open>response.text || "{}"\<close>.\<close>

definition responseText :: "string option \<Rightarrow> string" where
  "responseText text = (case text of None \<Rightarrow> ''{}'' | Some s \<Rightarrow> if s = [] then ''{}'' else s)"

text \<open>
  \<^verbatim>\<open>parseNaturalLanguagePlan\<close>: the settled value of the promise (\<open>Inl\<close> would be a
  rejection, \<open>Inr\<close> the resolved value) and what was done on the way. The \<^verbatim>\<open>catch\<close> covers
  the request, the parse and the property access.
\<close>

definition parseNaturalLanguagePlan ::
  "Env \<Rightarrow> string \<Rightarrow> int \<Rightarrow> (Exn + AIResponse) \<times> IO list" where
  "parseNaturalLanguagePlan env input baseTime =
     (case getClient env of
        (None, logged) \<Rightarrow> (Inr noTasks, logged)
      | (Some ai, logged) \<Rightarrow>
          (let nowStr = toLocaleTimeString env baseTime;
               req = request (prompt nowStr input)
           in case generateContent env req of
                Inl error \<Rightarrow>
                  (Inr noTasks, logged @ [GenerateContentCall req, ConsoleError error])
              | Inr text \<Rightarrow>
                  (case JSON_parse env (responseText text) of
                     Inl error \<Rightarrow>
                       (Inr noTasks, logged @ [GenerateContentCall req, ConsoleError error])
                   | Inr result \<Rightarrow>
                       (case getTasks result of
                          Inl error \<Rightarrow>
                            (Inr noTasks, logged @ [GenerateContentCall req, ConsoleError error])
                        | Inr found \<Rightarrow>
                            (Inr \<lparr>tasks = (case found of
                                             Some v \<Rightarrow> if truthy v then v else JArray []
                                           | None \<Rightarrow> JArray [])\<rparr>,
                             logged @ [GenerateContentCall req])))))"

text \<open>The request the function sends for an input and a reference time.\<close>

definition req_of :: "Env \<Rightarrow> string \<Rightarrow> int \<Rightarrow> Request" where
  "req_of env input baseTime = request (prompt (toLocaleTimeString env baseTime) input)"

subsection \<open>The inductive invariant of the timer\<close>

definition good :: "Timer \<Rightarrow> bool" where
  "good t \<longleftrightarrow> validSettings (settings t) \<and> timeInRange t"

subsection \<open>Sample inputs\<close>

definition task3 :: Task where
  "task3 = \<lparr>id_task = ''a'', title = ''write'', completedPomodoros = 3, expectedPomodoros = 4\<rparr>"

definition task0 :: Task where
  "task0 = \<lparr>id_task = ''b'', title = ''read'', completedPomodoros = 0, expectedPomodoros = 2\<rparr>"

definition settings0 :: Settings where
  "settings0 = \<lparr>pomodoroDuration = 25, shortBreakDuration = 5, longBreakDuration = 15,
                 autoStartBreaks = True, autoStartPomodoros = False\<rparr>"

definition expiring3 :: Timer where
  "expiring3 = \<lparr>timeLeft = 1, timerState = RUNNING, mode = pomo,
                 activeTask = Some task3, settings = settings0\<rparr>"

definition paused_break :: Timer where
  "paused_break = \<lparr>timeLeft = 200, timerState = PAUSED, mode = short,
                    activeTask = Some task3, settings = settings0\<rparr>"

definition running_break :: Timer where
  "running_break = \<lparr>timeLeft = 200, timerState = RUNNING, mode = short,
                     activeTask = Some task3, settings = settings0\<rparr>"

definition idle_no_task :: Timer where
  "idle_no_task = \<lparr>timeLeft = 1500, timerState = IDLE, mode = pomo,
                    activeTask = None, settings = settings0\<rparr>"

definition running_no_task :: Timer where
  "running_no_task = \<lparr>timeLeft = 200, timerState = RUNNING, mode = short,
                       activeTask = None, settings = settings0\<rparr>"

definition shorter_break :: Settings where
  "shorter_break = settings0\<lparr>shortBreakDuration := 1\<rparr>"

definition events0 :: "Event list" where
  "events0 =
     [Toggle, Tick, Skip, Tick, SettingsChanged (settings0\<lparr>shortBreakDuration := 10\<rparr>),
      Skip, TaskChanged (Some task3), Toggle, Tick,
      SettingsChanged (settings0\<lparr>pomodoroDuration := 1\<rparr>), TaskChanged None]"

text \<open>A response body whose only task has neither title nor duration, and a number as notes.\<close>

definition body0 :: string where
  "body0 = ''{'' @ dquote @ ''tasks'' @ dquote @ '':[{'' @ dquote @ ''notes'' @ dquote @ '':7}]}''"

definition loose_tasks :: json where
  "loose_tasks = JArray [JObject [(''notes'', JNumber 7)]]"

definition sample_parse :: "string \<Rightarrow> Exn + json" where
  "sample_parse s =
     (if s = body0 then Inr (JObject [(''tasks'', loose_tasks)])
      else if s = ''{}'' then Inr (JObject [])
      else if s = ''null'' then Inr JNull
      else Inl (SyntaxError s))"

definition env_no_key :: Env where
  "env_no_key = \<lparr>API_KEY = None, toLocaleTimeString = (\<lambda>_. ''9:00:00 AM''),
                  generateContent = (\<lambda>_. Inr (Some body0)), JSON_parse = sample_parse\<rparr>"

definition env_down :: Env where
  "env_down = \<lparr>API_KEY = Some ''k'', toLocaleTimeString = (\<lambda>_. ''9:00:00 AM''),
                generateContent = (\<lambda>_. Inl (ApiError ''503'')), JSON_parse = sample_parse\<rparr>"

definition env_garbled :: Env where
  "env_garbled = \<lparr>API_KEY = Some ''k'', toLocaleTimeString = (\<lambda>_. ''9:00:00 AM''),
                   generateContent = (\<lambda>_. Inr (Some ''<html>'')), JSON_parse = sample_parse\<rparr>"

definition env_empty :: Env where
  "env_empty = \<lparr>API_KEY = Some ''k'', toLocaleTimeString = (\<lambda>_. ''9:00:00 AM''),
                 generateContent = (\<lambda>_. Inr None), JSON_parse = sample_parse\<rparr>"

definition env_loose :: Env where
  "env_loose = \<lparr>API_KEY = Some ''k'', toLocaleTimeString = (\<lambda>_. ''9:00:00 AM''),
                 generateContent = (\<lambda>_. Inr (Some body0)), JSON_parse = sample_parse\<rparr>"

section \<open>Properties of the timer\<close>

subsection \<open>Finishing an interval\<close>

text \<open>
  The test \<^verbatim>\<open>completed % 4 === 0\<close> with the truncating remainder agrees with divisibility
  by four, also for a negative count.
\<close>

lemma smod_4_eq_0_iff: "(k::int) smod 4 = 0 \<longleftrightarrow> k mod 4 = 0"
  by (auto simp: signed_modulo_int_def sgn_if abs_if zmod_zminus1_eq_if split: if_splits)

lemma handleTimerFinish_pomo:
  "mode t = pomo \<Longrightarrow>
   handleTimerFinish t =
     (let completed = (case activeTask t of Some task \<Rightarrow> completedPomodoros task
                       | None \<Rightarrow> 0) + 1;
          brk = (if completed mod 4 = 0 then long else short)
      in (t\<lparr>timerState := (if autoStartBreaks (settings t) then RUNNING else IDLE),
            mode := brk,
            timeLeft := (if completed mod 4 = 0 then longBreakDuration (settings t)
                         else shortBreakDuration (settings t)) * 60\<rparr>,
          PlayChime # (case activeTask t of
                         Some task \<Rightarrow> [OnPomodoroComplete (id_task task)]
                       | None \<Rightarrow> [])))"
  by (simp add: handleTimerFinish_def Let_def smod_4_eq_0_iff)

lemma handleTimerFinish_break:
  "mode t \<noteq> pomo \<Longrightarrow>
   handleTimerFinish t =
     (t\<lparr>timerState := (if autoStartPomodoros (settings t) then RUNNING else IDLE),
        mode := pomo, timeLeft := pomodoroDuration (settings t) * 60\<rparr>, [PlayChime])"
  by (simp add: handleTimerFinish_def Let_def)

lemma tick_expired:
  "timerState t = RUNNING \<Longrightarrow> timeLeft t \<le> 1 \<Longrightarrow> tick t = handleTimerFinish t"
  by (simp add: tick_def)

text \<open>
  C1. A focus interval that finishes, by a tick at one second or less while running or by
  a skip, is followed by a long break when the task's count plus one (one without a task)
  is divisible by four and by a short break otherwise; the time left is that break's
  duration in seconds, and the timer runs exactly when \<open>autoStartBreaks\<close> is set.
\<close>

theorem focus_finish_next_interval:
  assumes "mode t = pomo"
    and "completedCount =
           (case activeTask t of Some task \<Rightarrow> completedPomodoros task | None \<Rightarrow> 0) + 1"
    and "finished = skipTimer t
         \<or> (timerState t = RUNNING \<and> timeLeft t \<le> 1 \<and> finished = tick t)"
  shows "mode (fst finished) = (if completedCount mod 4 = 0 then long else short)
       \<and> timeLeft (fst finished) =
           (if completedCount mod 4 = 0 then longBreakDuration (settings t)
            else shortBreakDuration (settings t)) * 60
       \<and> timeLeft (fst finished) = durationCurrent (fst finished) * 60
       \<and> timerState (fst finished) = (if autoStartBreaks (settings t) then RUNNING else IDLE)"
proof -
  from assms(3) have "finished = handleTimerFinish t"
    by (auto simp: skipTimer_def tick_expired)
  with assms(1,2) show ?thesis
    by (simp add: handleTimerFinish_pomo Let_def durationCurrent_def)
qed

text \<open>
  C1, at the scenario of the spec: three pomodoros done, the fourth expires, a long break
  of 900 seconds starts by itself.
\<close>

theorem focus_finish_next_interval_witness:
  "mode (fst (tick expiring3)) = long
   \<and> timeLeft (fst (tick expiring3)) = 900
   \<and> timerState (fst (tick expiring3)) = RUNNING"
proof -
  have m: "mode expiring3 = pomo"
    by (simp add: expiring3_def)
  have c: "(4::int) = (case activeTask expiring3 of Some task \<Rightarrow> completedPomodoros task
                       | None \<Rightarrow> 0) + 1"
    by (simp add: expiring3_def task3_def)
  have f: "tick expiring3 = skipTimer expiring3
           \<or> (timerState expiring3 = RUNNING \<and> timeLeft expiring3 \<le> 1
              \<and> tick expiring3 = tick expiring3)"
    by (simp add: expiring3_def)
  have s: "longBreakDuration (settings expiring3) = 15" "autoStartBreaks (settings expiring3)"
    by (simp_all add: expiring3_def settings0_def)
  from focus_finish_next_interval [OF m c f] s show ?thesis
    by simp
qed

text \<open>
  C5. A break that finishes, short or long, by expiry or by a skip, is followed by a
  focus interval of \<open>pomodoroDuration\<close> minutes; the timer runs exactly when
  \<open>autoStartPomodoros\<close> is set, and the only effect is the chime: no callback is called.
\<close>

theorem break_finish_next_interval:
  assumes "mode t = short \<or> mode t = long"
    and "finished = skipTimer t
         \<or> (timerState t = RUNNING \<and> timeLeft t \<le> 1 \<and> finished = tick t)"
  shows "mode (fst finished) = pomo
       \<and> timeLeft (fst finished) = pomodoroDuration (settings t) * 60
       \<and> timerState (fst finished) = (if autoStartPomodoros (settings t) then RUNNING else IDLE)
       \<and> snd finished = [PlayChime]"
proof -
  from assms(2) have "finished = handleTimerFinish t"
    by (auto simp: skipTimer_def tick_expired)
  moreover from assms(1) have "mode t \<noteq> pomo"
    by auto
  ultimately show ?thesis
    by (simp add: handleTimerFinish_break)
qed

text \<open>C5, at a paused short break that is skipped.\<close>

theorem break_finish_next_interval_witness:
  "mode (fst (skipTimer paused_break)) = pomo
   \<and> timeLeft (fst (skipTimer paused_break)) = 1500
   \<and> timerState (fst (skipTimer paused_break)) = IDLE
   \<and> snd (skipTimer paused_break) = [PlayChime]"
proof -
  have m: "mode paused_break = short \<or> mode paused_break = long"
    by (simp add: paused_break_def)
  have f: "skipTimer paused_break = skipTimer paused_break
           \<or> (timerState paused_break = RUNNING \<and> timeLeft paused_break \<le> 1
              \<and> skipTimer paused_break = tick paused_break)"
    by simp
  have s: "pomodoroDuration (settings paused_break) = 25"
    "\<not> autoStartPomodoros (settings paused_break)"
    by (simp_all add: paused_break_def settings0_def)
  from break_finish_next_interval [OF m f] s show ?thesis
    by simp
qed

text \<open>
  C9. A focus interval that finishes without an active task calls no callback (the chime
  is the only effect) and is always followed by a short break of \<open>shortBreakDuration\<close>
  minutes, the count being taken as one.
\<close>

theorem focus_finish_without_task:
  assumes "mode t = pomo" and "activeTask t = None"
    and "finished = skipTimer t
         \<or> (timerState t = RUNNING \<and> timeLeft t \<le> 1 \<and> finished = tick t)"
  shows "snd finished = [PlayChime]
       \<and> mode (fst finished) = short
       \<and> timeLeft (fst finished) = shortBreakDuration (settings t) * 60"
proof -
  from assms(3) have "finished = handleTimerFinish t"
    by (auto simp: skipTimer_def tick_expired)
  with assms(1,2) show ?thesis
    by (simp add: handleTimerFinish_pomo)
qed

text \<open>C9, at an idle timer without a task whose focus interval is skipped.\<close>

theorem focus_finish_without_task_witness:
  "snd (skipTimer idle_no_task) = [PlayChime]
   \<and> mode (fst (skipTimer idle_no_task)) = short
   \<and> timeLeft (fst (skipTimer idle_no_task)) = 300"
proof -
  have m: "mode idle_no_task = pomo" and n: "activeTask idle_no_task = None"
    by (simp_all add: idle_no_task_def)
  have f: "skipTimer idle_no_task = skipTimer idle_no_task
           \<or> (timerState idle_no_task = RUNNING \<and> timeLeft idle_no_task \<le> 1
              \<and> skipTimer idle_no_task = tick idle_no_task)"
    by simp
  have s: "shortBreakDuration (settings idle_no_task) = 5"
    by (simp add: idle_no_task_def settings0_def)
  from focus_finish_without_task [OF m n f] s show ?thesis
    by simp
qed

subsection \<open>Tick and skip\<close>

text \<open>
  C4. A tick while running finishes the interval when at most one second is left, and
  otherwise takes exactly one second off, leaving state and mode (and everything else) as
  they were; a tick while idle or paused changes nothing and has no effect.
\<close>

theorem tick_behaviour:
  "(timerState t = RUNNING \<and> timeLeft t \<le> 1 \<longrightarrow> tick t = handleTimerFinish t)
   \<and> (timerState t = RUNNING \<and> 1 < timeLeft t \<longrightarrow>
        tick t = (t\<lparr>timeLeft := timeLeft t - 1\<rparr>, [])
        \<and> snapshot (fst (tick t)) = (mode t, timeLeft t - 1, RUNNING))
   \<and> (timerState t = IDLE \<or> timerState t = PAUSED \<longrightarrow> tick t = (t, []))"
  by (auto simp: tick_def snapshot_def)

text \<open>C4, at an expiring focus interval, a running break and a paused break.\<close>

theorem tick_behaviour_witness:
  "tick expiring3 = handleTimerFinish expiring3
   \<and> snapshot (fst (tick running_break)) = (short, 199, RUNNING)
   \<and> tick paused_break = (paused_break, [])"
proof -
  have a: "timerState expiring3 = RUNNING \<and> timeLeft expiring3 \<le> 1"
    by (simp add: expiring3_def)
  have b: "timerState running_break = RUNNING \<and> 1 < timeLeft running_break"
    "mode running_break = short" "timeLeft running_break - 1 = 199"
    by (simp_all add: running_break_def)
  have c: "timerState paused_break = PAUSED"
    by (simp add: paused_break_def)
  from tick_behaviour [of expiring3] tick_behaviour [of running_break]
    tick_behaviour [of paused_break] a b c
  show ?thesis by (simp add: snapshot_def)
qed

text \<open>
  C3. A skip is \<open>handleTimerFinish\<close> whatever the state and the time left, neither of which
  its result depends on; a skip while paused gives the same snapshot, and the same
  effects, as the expiry by a tick of a running timer in the same mode, with the same
  task and settings.
\<close>

theorem skip_same_as_expiry:
  "skipTimer t = handleTimerFinish t
   \<and> skipTimer (t\<lparr>timerState := st, timeLeft := n\<rparr>)
       = (fst (skipTimer t), snd (skipTimer t))
   \<and> (timerState t = PAUSED \<and> timerState r = RUNNING \<and> timeLeft r \<le> 1
        \<and> mode r = mode t \<and> activeTask r = activeTask t \<and> settings r = settings t
      \<longrightarrow> snapshot (fst (skipTimer t)) = snapshot (fst (tick r))
          \<and> snd (skipTimer t) = snd (tick r))"
  by (cases "mode t = pomo")
     (auto simp: skipTimer_def tick_expired handleTimerFinish_pomo handleTimerFinish_break
        Let_def snapshot_def)

text \<open>C3, at a paused short break against the same break running with one second left.\<close>

theorem skip_same_as_expiry_witness:
  "snapshot (fst (skipTimer paused_break))
     = snapshot (fst (tick (paused_break\<lparr>timerState := RUNNING, timeLeft := 1\<rparr>)))
   \<and> snapshot (fst (skipTimer paused_break)) = (pomo, 1500, IDLE)"
proof -
  have h: "timerState paused_break = PAUSED
           \<and> timerState (paused_break\<lparr>timerState := RUNNING, timeLeft := 1\<rparr>) = RUNNING
           \<and> timeLeft (paused_break\<lparr>timerState := RUNNING, timeLeft := 1\<rparr>) \<le> 1
           \<and> mode (paused_break\<lparr>timerState := RUNNING, timeLeft := 1\<rparr>) = mode paused_break
           \<and> activeTask (paused_break\<lparr>timerState := RUNNING, timeLeft := 1\<rparr>)
               = activeTask paused_break
           \<and> settings (paused_break\<lparr>timerState := RUNNING, timeLeft := 1\<rparr>)
               = settings paused_break"
    by (simp add: paused_break_def)
  have v: "snapshot (fst (skipTimer paused_break)) = (pomo, 1500, IDLE)"
    by (simp add: paused_break_def settings0_def skipTimer_def handleTimerFinish_def
        snapshot_def)
  from skip_same_as_expiry
    [where t = paused_break
       and r = "paused_break\<lparr>timerState := RUNNING, timeLeft := 1\<rparr>"] h v
  show ?thesis by simp
qed

text \<open>
  C8, as stated, fails: a running timer without an active task still counts down. The
  tick takes a second off a running break of 200 seconds although no task is active.
\<close>

theorem tick_without_task_counts_down:
  "activeTask running_no_task = None
   \<and> snapshot running_no_task = (short, 200, RUNNING)
   \<and> snapshot (fst (tick running_no_task)) = (short, 199, RUNNING)
   \<and> fst (tick running_no_task) \<noteq> running_no_task"
  by (simp add: running_no_task_def tick_def snapshot_def)

text \<open>
  C8, amended. Without an active task a tick changes nothing when the timer is idle or
  paused; when it is running the tick takes one second off, or at one second or less
  finishes the interval as \<open>handleTimerFinish\<close> does, without calling
  \<open>onPomodoroComplete\<close>. The tick is a total function: nothing is raised.
\<close>

theorem tick_without_task:
  assumes "activeTask t = None"
  shows "(timerState t \<noteq> RUNNING \<longrightarrow> tick t = (t, []))
       \<and> (timerState t = RUNNING \<and> 1 < timeLeft t \<longrightarrow>
            tick t = (t\<lparr>timeLeft := timeLeft t - 1\<rparr>, []))
       \<and> (timerState t = RUNNING \<and> timeLeft t \<le> 1 \<longrightarrow>
            tick t = handleTimerFinish t \<and> (\<forall>i. OnPomodoroComplete i \<notin> set (snd (tick t))))"
  using assms
  by (cases "mode t = pomo")
     (auto simp: tick_def handleTimerFinish_pomo handleTimerFinish_break)

text \<open>C8, amended, at an idle timer, a running one and an expiring one, none with a task.\<close>

theorem tick_without_task_witness:
  "tick idle_no_task = (idle_no_task, [])
   \<and> tick running_no_task = (running_no_task\<lparr>timeLeft := 199\<rparr>, [])
   \<and> snd (tick (running_no_task\<lparr>timeLeft := 1\<rparr>)) = [PlayChime]"
proof -
  have a: "activeTask idle_no_task = None" "timerState idle_no_task \<noteq> RUNNING"
    by (simp_all add: idle_no_task_def)
  have b: "activeTask running_no_task = None"
    "timerState running_no_task = RUNNING \<and> 1 < timeLeft running_no_task"
    "timeLeft running_no_task - 1 = 199"
    by (simp_all add: running_no_task_def)
  have c: "activeTask (running_no_task\<lparr>timeLeft := 1\<rparr>) = None"
    "timerState (running_no_task\<lparr>timeLeft := 1\<rparr>) = RUNNING
     \<and> timeLeft (running_no_task\<lparr>timeLeft := 1\<rparr>) \<le> 1"
    by (simp_all add: running_no_task_def)
  have d: "snd (handleTimerFinish (running_no_task\<lparr>timeLeft := 1\<rparr>)) = [PlayChime]"
    by (simp add: running_no_task_def handleTimerFinish_def Let_def)
  from tick_without_task [OF a(1)] tick_without_task [OF b(1)] tick_without_task [OF c(1)]
    a b c d
  show ?thesis by simp
qed

subsection \<open>Changing the task\<close>

text \<open>
  C6, as stated, fails when the active task is taken away: its id changes to undefined,
  and under \<^verbatim>\<open>if (activeTask)\<close> nothing is reset. A running break of 200 seconds stays as
  it is.
\<close>

theorem task_removed_keeps_interval:
  "map_option id_task None \<noteq> map_option id_task (activeTask running_break)
   \<and> snapshot (setProps None (settings running_break) running_break) = (short, 200, RUNNING)
   \<and> snapshot (setProps None (settings running_break) running_break)
       \<noteq> (pomo, pomodoroDuration (settings running_break) * 60, IDLE)"
  by (simp add: running_break_def setProps_def resetTimer_def snapshot_def)

text \<open>
  C6, amended. Whenever the id of the active task changes to that of a task, the timer is
  reset to an idle focus interval of \<open>pomodoroDuration\<close> minutes, whatever its state, mode
  and time left were; when the active task is taken away the snapshot stays as it is.
\<close>

theorem task_change_resets:
  "(map_option id_task (Some task) \<noteq> map_option id_task (activeTask t) \<longrightarrow>
      snapshot (setProps (Some task) s t) = (pomo, pomodoroDuration s * 60, IDLE))
   \<and> snapshot (setProps None s t) = snapshot t"
  by (simp add: setProps_def resetTimer_def snapshot_def Let_def)

text \<open>C6, amended, at a running break whose task is replaced by another.\<close>

theorem task_change_resets_witness:
  "snapshot (setProps (Some task0) settings0 running_break) = (pomo, 1500, IDLE)
   \<and> snapshot (setProps None settings0 running_break) = snapshot running_break"
proof -
  have a: "map_option id_task (Some task0) \<noteq> map_option id_task (activeTask running_break)"
    by (simp add: task0_def task3_def running_break_def)
  have c: "pomodoroDuration settings0 * 60 = 1500"
    by (simp add: settings0_def)
  from task_change_resets [of task0 running_break settings0] a c show ?thesis
    by simp
qed

subsection \<open>The time left stays within the interval\<close>

lemma good_initialTimer: "validSettings s \<Longrightarrow> good (initialTimer task s)"
  by (simp add: good_def initialTimer_def timeInRange_def durationCurrent_def validSettings_def)

lemma good_handleTimerFinish: "good t \<Longrightarrow> good (fst (handleTimerFinish t))"
  by (cases "mode t = pomo")
     (auto simp: good_def handleTimerFinish_pomo handleTimerFinish_break Let_def
        timeInRange_def durationCurrent_def validSettings_def)

lemma good_tick: "good t \<Longrightarrow> good (fst (tick t))"
  by (auto simp: tick_def good_handleTimerFinish)
     (auto simp: good_def timeInRange_def durationCurrent_def)

lemma good_toggleTimer: "good t \<Longrightarrow> good (toggleTimer t)"
  by (auto simp: good_def toggleTimer_def timeInRange_def durationCurrent_def
      split: if_splits)

lemma good_task: "good t \<Longrightarrow> good (setProps task (settings t) t)"
  by (auto simp: setProps_def Let_def resetTimer_def good_def timeInRange_def
      durationCurrent_def validSettings_def split: option.splits)

lemma good_settings:
  "good t \<Longrightarrow> eventOk t (SettingsChanged s) \<Longrightarrow> good (setProps (activeTask t) s t)"
  by (auto simp: setProps_def Let_def resetTimer_def good_def timeInRange_def
      resetsOnSettings_def durationCurrent_def validSettings_def
      split: option.splits if_splits)

lemma good_step: "good t \<Longrightarrow> eventOk t e \<Longrightarrow> good (step t e)"
  by (cases e)
     (simp_all add: good_tick good_toggleTimer skipTimer_def good_handleTimerFinish
        good_task good_settings del: eventOk.simps)

lemma good_run: "good t \<Longrightarrow> admissible t es \<Longrightarrow> good (run t es)"
  by (induction es arbitrary: t) (simp_all add: good_step)

text \<open>
  C2, as stated, fails on a change of settings: only a change of \<open>pomodoroDuration\<close> is a
  dependency of the reset. After a skipped focus interval the short break has 300
  seconds; lowering \<open>shortBreakDuration\<close> from 5 to 1 leaves them, above the 60 the new
  settings allow.
\<close>

theorem settings_change_breaks_range:
  "validSettings settings0 \<and> validSettings shorter_break
   \<and> timeLeft (run (initialTimer (Some task0) settings0)
                 [Skip, SettingsChanged shorter_break]) = 300
   \<and> durationCurrent (run (initialTimer (Some task0) settings0)
                        [Skip, SettingsChanged shorter_break]) * 60 = 60
   \<and> \<not> timeInRange (run (initialTimer (Some task0) settings0)
                       [Skip, SettingsChanged shorter_break])"
  by (simp add: validSettings_def settings0_def shorter_break_def task0_def initialTimer_def
      skipTimer_def handleTimerFinish_def Let_def setProps_def resetTimer_def
      timeInRange_def durationCurrent_def signed_modulo_int_def)

lemma settings_change_without_reset:
  "\<not> resetsOnSettings u s' \<Longrightarrow> step u (SettingsChanged s') = u\<lparr>settings := s'\<rparr>"
  by (auto simp: resetsOnSettings_def setProps_def resetTimer_def Let_def)

text \<open>
  C2, amended. From the initial state with valid settings, after any sequence of ticks,
  toggles, skips and changes of task, and of changes to valid settings each of which
  resets the timer (another \<open>pomodoroDuration\<close> while a task is active) or does not lower
  the duration of the mode the timer is in, the time left is between 0 and the duration
  of the current mode times 60. A change of settings that does not reset the timer, in
  any state \<open>u\<close> and so also one that lowers the duration of the current mode, replaces
  the settings and nothing else: time left, mode and state stay as they were.
\<close>

theorem time_in_range_reachable:
  assumes "validSettings s" and "admissible (initialTimer task s) es"
  shows "0 \<le> timeLeft (run (initialTimer task s) es)
       \<and> timeLeft (run (initialTimer task s) es)
           \<le> durationCurrent (run (initialTimer task s) es) * 60
       \<and> (\<not> resetsOnSettings u s' \<longrightarrow>
            step u (SettingsChanged s') = u\<lparr>settings := s'\<rparr>
            \<and> timeLeft (step u (SettingsChanged s')) = timeLeft u
            \<and> snapshot (step u (SettingsChanged s')) = snapshot u)"
proof -
  from good_run [OF good_initialTimer [OF assms(1)] assms(2)]
  have "0 \<le> timeLeft (run (initialTimer task s) es)
        \<and> timeLeft (run (initialTimer task s) es)
            \<le> durationCurrent (run (initialTimer task s) es) * 60"
    by (simp add: good_def timeInRange_def)
  moreover have "\<not> resetsOnSettings u s' \<longrightarrow>
      step u (SettingsChanged s') = u\<lparr>settings := s'\<rparr>
      \<and> timeLeft (step u (SettingsChanged s')) = timeLeft u
      \<and> snapshot (step u (SettingsChanged s')) = snapshot u"
    by (simp add: settings_change_without_reset snapshot_def del: step.simps)
  ultimately show ?thesis
    by blast
qed

text \<open>
  C2, amended, at a run of eleven events with two changes of settings, one that lengthens
  the running break and one that resets the timer; and at a running short break of 200
  seconds whose duration is lowered to one minute, which keeps its 200 seconds.
\<close>

theorem time_in_range_reachable_witness:
  "validSettings settings0
   \<and> admissible (initialTimer (Some task0) settings0) events0
   \<and> snapshot (run (initialTimer (Some task0) settings0) events0) = (pomo, 60, IDLE)
   \<and> 0 \<le> timeLeft (run (initialTimer (Some task0) settings0) events0)
   \<and> timeLeft (run (initialTimer (Some task0) settings0) events0)
       \<le> durationCurrent (run (initialTimer (Some task0) settings0) events0) * 60
   \<and> \<not> resetsOnSettings running_break shorter_break
   \<and> durationCurrent (running_break\<lparr>settings := shorter_break\<rparr>)
       < durationCurrent running_break
   \<and> step running_break (SettingsChanged shorter_break)
       = running_break\<lparr>settings := shorter_break\<rparr>
   \<and> snapshot (step running_break (SettingsChanged shorter_break)) = (short, 200, RUNNING)"
proof -
  have v: "validSettings settings0"
    by (simp add: validSettings_def settings0_def)
  have a: "admissible (initialTimer (Some task0) settings0) events0"
    by (simp add: events0_def validSettings_def settings0_def task0_def task3_def
        initialTimer_def skipTimer_def handleTimerFinish_def Let_def setProps_def
        resetTimer_def tick_def toggleTimer_def durationCurrent_def signed_modulo_int_def
        resetsOnSettings_def)
  have r: "snapshot (run (initialTimer (Some task0) settings0) events0) = (pomo, 60, IDLE)"
    by (simp add: events0_def settings0_def task0_def task3_def initialTimer_def
        skipTimer_def handleTimerFinish_def Let_def setProps_def resetTimer_def tick_def
        toggleTimer_def signed_modulo_int_def snapshot_def)
  have n: "\<not> resetsOnSettings running_break shorter_break"
    by (simp add: resetsOnSettings_def running_break_def shorter_break_def settings0_def)
  have d: "durationCurrent (running_break\<lparr>settings := shorter_break\<rparr>)
             < durationCurrent running_break"
    by (simp add: durationCurrent_def running_break_def shorter_break_def settings0_def)
  have p: "snapshot running_break = (short, 200, RUNNING)"
    by (simp add: snapshot_def running_break_def)
  from time_in_range_reachable
    [OF v a, where u = running_break and s' = shorter_break] v a r n d p
  show ?thesis
    by (simp add: snapshot_def del: step.simps)
qed

section \<open>Properties of the plan extraction client\<close>

lemma getClient_cases:
  "getClient env = (None, [ConsoleWarn ''API_KEY not found in environment variables''])
   \<or> (\<exists>k. getClient env = (Some k, []))"
  by (simp add: getClient_def split: option.splits)

lemma parse_resolves: "\<exists>r. fst (parseNaturalLanguagePlan env input baseTime) = Inr r"
  using getClient_cases [of env]
  by (auto simp: parseNaturalLanguagePlan_def Let_def split: sum.splits option.splits)

text \<open>
  C7. The promise of \<open>parseNaturalLanguagePlan\<close> always resolves, never rejects. Without
  a key (undefined or empty) it resolves to no tasks and no request is made; when the
  request throws, when the body does not parse, and when the parsed object has no
  \<open>tasks\<close> property, it resolves to no tasks.
\<close>

theorem parseNaturalLanguagePlan_never_raises:
  "(\<exists>r. fst (parseNaturalLanguagePlan env input baseTime) = Inr r)
   \<and> (API_KEY env = None \<or> API_KEY env = Some [] \<longrightarrow>
        fst (parseNaturalLanguagePlan env input baseTime) = Inr \<lparr>tasks = JArray []\<rparr>
        \<and> (\<forall>req. GenerateContentCall req
                    \<notin> set (snd (parseNaturalLanguagePlan env input baseTime))))
   \<and> ((\<exists>e. generateContent env (req_of env input baseTime) = Inl e) \<longrightarrow>
        fst (parseNaturalLanguagePlan env input baseTime) = Inr \<lparr>tasks = JArray []\<rparr>)
   \<and> ((\<exists>text e. generateContent env (req_of env input baseTime) = Inr text
                 \<and> JSON_parse env (responseText text) = Inl e) \<longrightarrow>
        fst (parseNaturalLanguagePlan env input baseTime) = Inr \<lparr>tasks = JArray []\<rparr>)
   \<and> ((\<exists>text props. generateContent env (req_of env input baseTime) = Inr text
                 \<and> JSON_parse env (responseText text) = Inr (JObject props)
                 \<and> map_of props ''tasks'' = None) \<longrightarrow>
        fst (parseNaturalLanguagePlan env input baseTime) = Inr \<lparr>tasks = JArray []\<rparr>)"
proof (intro conjI impI)
  show "\<exists>r. fst (parseNaturalLanguagePlan env input baseTime) = Inr r"
    by (rule parse_resolves)
next
  assume "API_KEY env = None \<or> API_KEY env = Some []"
  then have "getClient env
      = (None, [ConsoleWarn ''API_KEY not found in environment variables''])"
    by (auto simp: getClient_def)
  then have p: "parseNaturalLanguagePlan env input baseTime
      = (Inr noTasks, [ConsoleWarn ''API_KEY not found in environment variables''])"
    by (simp add: parseNaturalLanguagePlan_def)
  show "fst (parseNaturalLanguagePlan env input baseTime) = Inr \<lparr>tasks = JArray []\<rparr>"
    by (simp add: p noTasks_def)
  show "\<forall>req. GenerateContentCall req
                \<notin> set (snd (parseNaturalLanguagePlan env input baseTime))"
    by (simp add: p)
next
  assume "\<exists>e. generateContent env (req_of env input baseTime) = Inl e"
  then show "fst (parseNaturalLanguagePlan env input baseTime) = Inr \<lparr>tasks = JArray []\<rparr>"
    using getClient_cases [of env]
    by (auto simp: parseNaturalLanguagePlan_def req_of_def Let_def noTasks_def)
next
  assume "\<exists>text e. generateContent env (req_of env input baseTime) = Inr text
            \<and> JSON_parse env (responseText text) = Inl e"
  then show "fst (parseNaturalLanguagePlan env input baseTime) = Inr \<lparr>tasks = JArray []\<rparr>"
    using getClient_cases [of env]
    by (auto simp: parseNaturalLanguagePlan_def req_of_def Let_def noTasks_def)
next
  assume "\<exists>text props. generateContent env (req_of env input baseTime) = Inr text
            \<and> JSON_parse env (responseText text) = Inr (JObject props)
            \<and> map_of props ''tasks'' = None"
  then show "fst (parseNaturalLanguagePlan env input baseTime) = Inr \<lparr>tasks = JArray []\<rparr>"
    using getClient_cases [of env]
    by (auto simp: parseNaturalLanguagePlan_def req_of_def Let_def noTasks_def)
qed


text \<open>
  C7, at four environments: no key, a service that throws, a body that is no JSON, and a
  response without text, parsed as the empty object.
\<close>

theorem parseNaturalLanguagePlan_never_raises_witness:
  "parseNaturalLanguagePlan env_no_key ''gym at 5'' 0
     = (Inr \<lparr>tasks = JArray []\<rparr>,
        [ConsoleWarn ''API_KEY not found in environment variables''])
   \<and> fst (parseNaturalLanguagePlan env_down ''gym at 5'' 0) = Inr \<lparr>tasks = JArray []\<rparr>
   \<and> fst (parseNaturalLanguagePlan env_garbled ''gym at 5'' 0) = Inr \<lparr>tasks = JArray []\<rparr>
   \<and> fst (parseNaturalLanguagePlan env_empty ''gym at 5'' 0) = Inr \<lparr>tasks = JArray []\<rparr>"
proof -
  have k: "API_KEY env_no_key = None \<or> API_KEY env_no_key = Some []"
    by (simp add: env_no_key_def)
  have l: "snd (parseNaturalLanguagePlan env_no_key ''gym at 5'' 0)
             = [ConsoleWarn ''API_KEY not found in environment variables'']"
    by (simp add: parseNaturalLanguagePlan_def getClient_def env_no_key_def)
  have d: "\<exists>e. generateContent env_down (req_of env_down ''gym at 5'' 0) = Inl e"
    by (simp add: env_down_def)
  have g: "\<exists>text e. generateContent env_garbled (req_of env_garbled ''gym at 5'' 0) = Inr text
                    \<and> JSON_parse env_garbled (responseText text) = Inl e"
    by (simp add: env_garbled_def responseText_def sample_parse_def body0_def dquote_def)
  have e: "\<exists>text props. generateContent env_empty (req_of env_empty ''gym at 5'' 0) = Inr text
                    \<and> JSON_parse env_empty (responseText text) = Inr (JObject props)
                    \<and> map_of props ''tasks'' = None"
    by (simp add: env_empty_def responseText_def sample_parse_def body0_def dquote_def)
  from parseNaturalLanguagePlan_never_raises [of env_no_key "''gym at 5''" 0]
    parseNaturalLanguagePlan_never_raises [of env_down "''gym at 5''" 0]
    parseNaturalLanguagePlan_never_raises [of env_garbled "''gym at 5''" 0]
    parseNaturalLanguagePlan_never_raises [of env_empty "''gym at 5''" 0]
    k l d g e
  show ?thesis
    by (simp add: prod_eq_iff)
qed

text \<open>
  C10. When a key is set, the request returns, and the body parses to an object whose
  \<open>tasks\<close> property is truthy, the function resolves to exactly that value, whatever it
  is: no element is checked or changed. One request is made.
\<close>

theorem tasks_returned_as_parsed:
  assumes "API_KEY env = Some k" and "k \<noteq> []"
    and "generateContent env (req_of env input baseTime) = Inr text"
    and "JSON_parse env (responseText text) = Inr (JObject props)"
    and "map_of props ''tasks'' = Some v"
    and "truthy v"
  shows "parseNaturalLanguagePlan env input baseTime
           = (Inr \<lparr>tasks = v\<rparr>, [GenerateContentCall (req_of env input baseTime)])"
proof -
  from assms(1,2) have "getClient env = (Some k, [])"
    by (simp add: getClient_def)
  with assms(3-6) show ?thesis
    by (simp add: parseNaturalLanguagePlan_def req_of_def Let_def)
qed

text \<open>
  C10, at a body whose only task has no title and no duration, and a number for notes:
  it is returned as parsed.
\<close>

theorem tasks_returned_as_parsed_witness:
  "fst (parseNaturalLanguagePlan env_loose ''gym at 5'' 0)
     = Inr \<lparr>tasks = JArray [JObject [(''notes'', JNumber 7)]]\<rparr>"
proof -
  have a: "API_KEY env_loose = Some ''k''" and b: "''k'' \<noteq> []"
    by (simp_all add: env_loose_def)
  have c: "generateContent env_loose (req_of env_loose ''gym at 5'' 0) = Inr (Some body0)"
    by (simp add: env_loose_def)
  have d: "JSON_parse env_loose (responseText (Some body0))
             = Inr (JObject [(''tasks'', loose_tasks)])"
    by (simp add: env_loose_def responseText_def sample_parse_def body0_def)
  have e: "map_of [(''tasks'', loose_tasks)] ''tasks'' = Some loose_tasks"
    by simp
  have f: "truthy loose_tasks"
    by (simp add: loose_tasks_def)
  from tasks_returned_as_parsed [OF a b c d e f] show ?thesis
    by (simp add: loose_tasks_def)
qed

end
